theory Spec2Isabelle
  imports Complex_Main "HOL-Library.Sublist"
begin

section \<open>JavaScript values\<close>

text \<open>
  The tool lives in \<^verbatim>\<open>src/tools/updateActivity.ts\<close>. Its data are JavaScript values.
  A Number is an IEEE double: a finite value (kept here as the exact rational it denotes),
  NaN or one of the infinities. The two zeros are not told apart: no operation of this
  file distinguishes them. Strings are kept as their UTF-8 bytes; the only search the
  code performs, \<^verbatim>\<open>includes\<close> with an ASCII needle, finds the same matches on UTF-8
  bytes as on UTF-16 code units.
\<close>

datatype jsnum = Finite rat | NaN | PosInf | NegInf

datatype jsval =
    JUndefined
  | JNull
  | JBool bool
  | JNum jsnum
  | JStr string
  | JArr "jsval list"
  | JObj "(string \<times> jsval) list"

type_synonym js_object = "(string \<times> jsval) list"

text \<open>A value of type \<^verbatim>\<open>T | null\<close>; \<^verbatim>\<open>T | null | undefined\<close> is an option of it.\<close>

datatype 'a nullable = Null | NotNull 'a

text \<open>ToBoolean on a Number: zero and NaN are falsy, everything else is truthy.\<close>

fun truthy_number :: "jsnum \<Rightarrow> bool" where
  "truthy_number (Finite q) = (q \<noteq> 0)"
| "truthy_number NaN = False"
| "truthy_number PosInf = True"
| "truthy_number NegInf = True"



text \<open>
  \<^verbatim>\<open>String.prototype.includes\<close>: the needle occurs at some position of the string.
\<close>

fun str_includes :: "string \<Rightarrow> string \<Rightarrow> bool" where
  "str_includes [] needle = (needle = [])"
| "str_includes (c # cs) needle = (prefix needle (c # cs) \<or> str_includes cs needle)"

text \<open>
  Property assignment \<^verbatim>\<open>obj.k = v\<close> on an ordinary object: an existing key keeps
  its place and takes the new value, a new key is added after the others.
\<close>

fun set_prop :: "string \<Rightarrow> jsval \<Rightarrow> js_object \<Rightarrow> js_object" where
  "set_prop k v [] = [(k, v)]"
| "set_prop k v (p # ps) = (if fst p = k then (k, v) # ps else p # set_prop k v ps)"


section \<open>Built-ins of the host\<close>

text \<open>
  Three built-ins depend on floating-point rounding or on the host's settings and are
  parameters of the model: ToString on a Number (used by template literals and by
  \<^verbatim>\<open>+\<close> with a string), the division operator, and
  \<^verbatim>\<open>new Date(s).toLocaleString()\<close>, which renders in the host's locale and time zone.
  Every theorem below holds for all of them.
\<close>

record js_runtime =
  Number_toString :: "jsnum \<Rightarrow> string"
  Number_divide :: "jsnum \<Rightarrow> jsnum \<Rightarrow> jsnum"
  Date_toLocaleString :: "string \<Rightarrow> string"

definition digit_char :: "nat \<Rightarrow> char" where
  "digit_char d = ''0123456789'' ! d"

fun digits :: "nat \<Rightarrow> string" where
  "digits n = (if n < 10 then [digit_char n] else digits (n div 10) @ [digit_char (n mod 10)])"

declare digits.simps [simp del]



text \<open>
  \<^verbatim>\<open>Math.round\<close>: the integer closest to the argument, the larger one on a tie.
  On a double this is exact.
\<close>

fun Math_round :: "jsnum \<Rightarrow> jsnum" where
  "Math_round (Finite q) = Finite (of_int \<lfloor>q + 1 / 2\<rfloor>)"
| "Math_round NaN = NaN"
| "Math_round PosInf = PosInf"
| "Math_round NegInf = NegInf"

text \<open>
  \<^verbatim>\<open>Number.prototype.toFixed(f)\<close> for \<open>0 \<le> f \<le> 100\<close>, after ECMAScript: a value that is
  not finite is printed by ToString; otherwise the sign is split off, a magnitude of at least
  \<open>10\<^sup>2\<^sup>1\<close> is printed by ToString, and a smaller one as the integer \<open>n\<close> closest to
  \<open>x \<sqdot> 10\<^sup>f\<close> (the larger on a tie), padded with zeros to more than \<open>f\<close> digits, with
  the point before the last \<open>f\<close>.
\<close>

definition fixed_digits :: "rat \<Rightarrow> nat \<Rightarrow> string" where
  "fixed_digits x f =
     (let n = nat \<lfloor>x * 10 ^ f + 1 / 2\<rfloor>;
          m = digits n;
          m = (if f \<noteq> 0 \<and> length m \<le> f then replicate (f + 1 - length m) (CHR ''0'') @ m else m)
      in if f = 0 then m else take (length m - f) m @ ''.'' @ drop (length m - f) m)"

definition Number_toFixed :: "js_runtime \<Rightarrow> jsnum \<Rightarrow> nat \<Rightarrow> string" where
  "Number_toFixed rt x f =
     (case x of
        Finite q \<Rightarrow>
          (let s = (if q < 0 then ''-'' else '''');
               a = \<bar>q\<bar>
           in if 10 ^ 21 \<le> a then s @ Number_toString rt (Finite a) else s @ fixed_digits a f)
      | _ \<Rightarrow> Number_toString rt x)"

section \<open>The activity record and its formatter\<close>

text \<open>
  The declaration of \<^verbatim>\<open>StravaDetailedActivity\<close> is in \<^verbatim>\<open>stravaClient.ts\<close>, which is
  not among the sources. The record has the fields that the formatter reads, typed as the
  formatter and the test's \<^verbatim>\<open>mockActivity\<close> use them: numbers and flags that may be
  missing, a description that may be missing or null.
\<close>

record StravaDetailedActivity =
  a_id :: jsnum
  a_name :: string
  a_type :: string
  a_sport_type :: string
  a_start_date_local :: string
  a_distance :: "jsnum option"
  a_total_elevation_gain :: "jsnum option"
  a_description :: "string nullable option"
  a_private :: "bool option"
  a_commute :: "bool option"

definition glyph_runner :: string where
  "glyph_runner = [CHR 0xF0, CHR 0x9F, CHR 0x8F, CHR 0x83]"

definition glyph_check :: string where
  "glyph_check = [CHR 0xE2, CHR 0x9C, CHR 0x85]"

definition glyph_cross :: string where
  "glyph_cross = [CHR 0xE2, CHR 0x9D, CHR 0x8C]"

text \<open>ToBoolean on the optional fields of the record.\<close>

definition truthy_description :: "string nullable option \<Rightarrow> bool" where
  "truthy_description d = (case d of Some (NotNull s) \<Rightarrow> s \<noteq> [] | _ \<Rightarrow> False)"

definition truthy_flag :: "bool option \<Rightarrow> bool" where
  "truthy_flag b = (b = Some True)"

definition description_text :: "string nullable option \<Rightarrow> string" where
  "description_text d = (case d of Some (NotNull s) \<Rightarrow> s | Some Null \<Rightarrow> ''null'' | None \<Rightarrow> ''undefined'')"

definition formatActivityDetails :: "js_runtime \<Rightarrow> StravaDetailedActivity \<Rightarrow> string" where
  "formatActivityDetails rt activity =
     (let date = Date_toLocaleString rt (a_start_date_local activity);
          distance =
            (case a_distance activity of
               Some d \<Rightarrow>
                 if truthy_number d
                 then Number_toFixed rt (Number_divide rt d (Finite 1000)) 2 @ '' km''
                 else ''N/A''
             | None \<Rightarrow> ''N/A'');
          elevation =
            (case a_total_elevation_gain activity of
               Some e \<Rightarrow>
                 if truthy_number e
                 then Number_toString rt (Math_round e) @ '' m''
                 else ''N/A''
             | None \<Rightarrow> ''N/A'');
          details = glyph_runner @ '' **'' @ a_name activity @ ''** (ID: ''
                      @ Number_toString rt (a_id activity) @ '')\<newline>'';
          details = details @ ''   - Type: '' @ a_type activity @ '' (''
                      @ a_sport_type activity @ '')\<newline>'';
          details = details @ ''   - Date: '' @ date @ ''\<newline>'';
          details = (if a_distance activity \<noteq> None
                     then details @ ''   - Distance: '' @ distance @ ''\<newline>''
                     else details);
          details = (if a_total_elevation_gain activity \<noteq> None
                     then details @ ''   - Elevation Gain: '' @ elevation @ ''\<newline>''
                     else details);
          details = (if truthy_description (a_description activity)
                     then details @ ''   - Description: ''
                            @ description_text (a_description activity) @ ''\<newline>''
                     else details);
          details = details @ ''   - Private: ''
                      @ (if truthy_flag (a_private activity) then ''Yes'' else ''No'') @ ''\<newline>'';
          details = details @ ''   - Commute: ''
                      @ (if truthy_flag (a_commute activity) then ''Yes'' else ''No'') @ ''\<newline>''
      in details)"

section \<open>The tool handler\<close>

text \<open>The destructured parameter of \<^verbatim>\<open>execute\<close>, of type \<^verbatim>\<open>UpdateActivityInput\<close>.\<close>

record UpdateActivityInput =
  activityId :: jsnum
  name :: "string option"
  type :: "string option"
  sportType :: "string option"
  description :: "string option"
  isPrivate :: "bool option"
  commute :: "bool option"
  gearId :: "string nullable option"

text \<open>
  A value that a promise rejects with, or that is thrown, as far as the \<^verbatim>\<open>catch\<close> block
  looks at it: an instance of \<^verbatim>\<open>Error\<close> with its message, or another value, for which
  \<^verbatim>\<open>String(error)\<close> either gives a text or throws in its turn (an object without a
  usable \<^verbatim>\<open>toString\<close>, such as \<^verbatim>\<open>Object.create(null)\<close>, makes it throw a TypeError).
\<close>

datatype thrown =
    ErrorInstance string
  | Stringifiable string
  | Unstringifiable thrown

text \<open>The awaited call of the client either resolves with the activity or rejects.\<close>

datatype settled = Resolved StravaDetailedActivity | Rejected thrown

type_synonym update_function = "string \<Rightarrow> jsnum \<Rightarrow> js_object \<Rightarrow> settled"

text \<open>What the handler does to the outside, in order.\<close>

datatype event =
    ConsoleError string
  | UpdateCall string jsnum js_object

record content_block =
  block_type :: string
  block_text :: string

record tool_result =
  content :: "content_block list"
  isError :: "bool option"

text \<open>
  A run of the handler: the result it returns (\<open>Inr\<close>) or the exception that leaves it
  (\<open>Inl\<close>), and its events.
\<close>

record execution =
  outcome :: "thrown + tool_result"
  trace :: "event list"

text \<open>A \<^verbatim>\<open>string | null\<close> as a JavaScript value.\<close>

fun string_or_null :: "string nullable \<Rightarrow> jsval" where
  "string_or_null Null = JNull"
| "string_or_null (NotNull s) = JStr s"

text \<open>Lines 56 to 72: the parameters of the update, built key by key.\<close>

definition build_updateParams :: "UpdateActivityInput \<Rightarrow> js_object" where
  "build_updateParams input =
     (let updateParams = [];
          updateParams = (case name input of
                            Some v \<Rightarrow> set_prop ''name'' (JStr v) updateParams
                          | None \<Rightarrow> updateParams);
          updateParams = (case type input of
                            Some v \<Rightarrow> set_prop ''type'' (JStr v) updateParams
                          | None \<Rightarrow> updateParams);
          updateParams = (case sportType input of
                            Some v \<Rightarrow> set_prop ''sport_type'' (JStr v) updateParams
                          | None \<Rightarrow> updateParams);
          updateParams = (case description input of
                            Some v \<Rightarrow> set_prop ''description'' (JStr v) updateParams
                          | None \<Rightarrow> updateParams);
          updateParams = (case isPrivate input of
                            Some v \<Rightarrow> set_prop ''private'' (JBool v) updateParams
                          | None \<Rightarrow> updateParams);
          updateParams = (case commute input of
                            Some v \<Rightarrow> set_prop ''commute'' (JBool v) updateParams
                          | None \<Rightarrow> updateParams);
          updateParams = (case gearId input of
                            Some v \<Rightarrow> set_prop ''gear_id'' (string_or_null v) updateParams
                          | None \<Rightarrow> updateParams)
      in updateParams)"

text \<open>Line 85: \<^verbatim>\<open>error instanceof Error ? error.message : String(error)\<close>.\<close>

fun errorMessage_of :: "thrown \<Rightarrow> thrown + string" where
  "errorMessage_of (ErrorInstance m) = Inr m"
| "errorMessage_of (Stringifiable s) = Inr s"
| "errorMessage_of (Unstringifiable t) = Inl t"

text \<open>Lines 88 to 90.\<close>

definition userFriendlyMessage :: "js_runtime \<Rightarrow> jsnum \<Rightarrow> string \<Rightarrow> string" where
  "userFriendlyMessage rt ident errorMessage =
     (if str_includes errorMessage ''Record Not Found'' \<or> str_includes errorMessage ''404''
      then ''Activity with ID '' @ Number_toString rt ident
             @ '' not found or you don't have permission to update it.''
      else ''An unexpected error occurred while updating activity ID ''
             @ Number_toString rt ident @ ''. Details: '' @ errorMessage)"

definition text_result :: "string \<Rightarrow> bool option \<Rightarrow> tool_result" where
  "text_result t e = \<lparr>content = [\<lparr>block_type = ''text'', block_text = t\<rparr>], isError = e\<rparr>"

text \<open>
  \<^verbatim>\<open>updateActivityTool.execute\<close>. The first argument after the runtime is
  \<^verbatim>\<open>process.env.STRAVA_ACCESS_TOKEN\<close>, the second the client's
  \<^verbatim>\<open>updateActivity\<close>.
\<close>

definition execute ::
  "js_runtime \<Rightarrow> string option \<Rightarrow> update_function \<Rightarrow> UpdateActivityInput \<Rightarrow> execution" where
  "execute rt STRAVA_ACCESS_TOKEN updateActivityInStrava input =
     (case (case STRAVA_ACCESS_TOKEN of None \<Rightarrow> None | Some t \<Rightarrow> if t = [] then None else Some t) of
        None \<Rightarrow>
          \<lparr>outcome = Inr (text_result ''Configuration error: Missing Strava access token.'' (Some True)),
           trace = [ConsoleError ''Missing STRAVA_ACCESS_TOKEN environment variable.'']\<rparr>
      | Some token \<Rightarrow>
          (let log1 = ConsoleError (''Updating activity ID: ''
                        @ Number_toString rt (activityId input) @ ''...'');
               updateParams = build_updateParams input;
               call = UpdateCall token (activityId input) updateParams
           in case updateActivityInStrava token (activityId input) updateParams of
                Resolved updatedActivity \<Rightarrow>
                  (let activityDetailsText = formatActivityDetails rt updatedActivity;
                       log2 = ConsoleError (''Successfully updated activity: ''
                                @ a_name updatedActivity)
                   in \<lparr>outcome = Inr (text_result
                          (glyph_check @ '' Successfully updated activity ID ''
                             @ Number_toString rt (activityId input) @ ''.\<newline>\<newline>''
                             @ activityDetailsText) None),
                       trace = [log1, call, log2]\<rparr>)
              | Rejected error \<Rightarrow>
                  (case errorMessage_of error of
                     Inl t \<Rightarrow> \<lparr>outcome = Inl t, trace = [log1, call]\<rparr>
                   | Inr errorMessage \<Rightarrow>
                       (let log2 = ConsoleError (''Error updating activity ''
                                     @ Number_toString rt (activityId input) @ '': '' @ errorMessage)
                        in \<lparr>outcome = Inr (text_result
                               (glyph_cross @ '' ''
                                  @ userFriendlyMessage rt (activityId input) errorMessage)
                               (Some True)),
                            trace = [log1, call, log2]\<rparr>))))"

text \<open>The calls of the client among the events, with their arguments.\<close>

fun update_calls :: "event list \<Rightarrow> (string \<times> jsnum \<times> js_object) list" where
  "update_calls [] = []"
| "update_calls (ConsoleError _ # es) = update_calls es"
| "update_calls (UpdateCall t i p # es) = (t, i, p) # update_calls es"


definition returned :: "execution \<Rightarrow> tool_result option" where
  "returned x = (case outcome x of Inr r \<Rightarrow> Some r | Inl _ \<Rightarrow> None)"

section \<open>The input schema\<close>









section \<open>Example data\<close>

text \<open>
  A host whose built-ins compute without rounding: division is exact, ToString prints the
  decimal expansion (cut after twenty places), and the date text is left as it is. It agrees
  with ECMAScript on the numbers of the examples below (integers below \<open>2\<^sup>5\<^sup>3\<close>, quotients
  with a short exact expansion); a real host renders the date in its own locale.
\<close>

fun fraction_digits :: "nat \<Rightarrow> rat \<Rightarrow> string" where
  "fraction_digits 0 r = []"
| "fraction_digits (Suc k) r =
     (if r = 0 then []
      else digit_char (nat \<lfloor>r * 10\<rfloor>) # fraction_digits k (r * 10 - of_int \<lfloor>r * 10\<rfloor>))"

fun decimal :: "jsnum \<Rightarrow> string" where
  "decimal (Finite q) =
     (if q < 0 then ''-'' else '''') @ digits (nat \<lfloor>\<bar>q\<bar>\<rfloor>)
       @ (if of_int \<lfloor>q\<rfloor> = q then '''' else ''.'' @ fraction_digits 20 (\<bar>q\<bar> - of_int \<lfloor>\<bar>q\<bar>\<rfloor>))"
| "decimal NaN = ''NaN''"
| "decimal PosInf = ''Infinity''"
| "decimal NegInf = ''-Infinity''"

fun exact_divide :: "jsnum \<Rightarrow> jsnum \<Rightarrow> jsnum" where
  "exact_divide (Finite a) (Finite b) =
     (if b \<noteq> 0 then Finite (a / b) else if a = 0 then NaN else if 0 < a then PosInf else NegInf)"
| "exact_divide (Finite a) PosInf = Finite 0"
| "exact_divide (Finite a) NegInf = Finite 0"
| "exact_divide PosInf (Finite b) = (if b < 0 then NegInf else PosInf)"
| "exact_divide NegInf (Finite b) = (if b < 0 then PosInf else NegInf)"
| "exact_divide _ _ = NaN"

definition unchanged_date :: "string \<Rightarrow> string" where
  "unchanged_date s = s"

definition exact_runtime :: js_runtime where
  "exact_runtime =
     \<lparr>Number_toString = decimal, Number_divide = exact_divide, Date_toLocaleString = unchanged_date\<rparr>"

text \<open>The \<^verbatim>\<open>mockActivity\<close> of the test file, and clients that always answer the same.\<close>

definition mockActivity :: StravaDetailedActivity where
  "mockActivity =
     \<lparr>a_id = Finite 12345,
      a_name = ''Updated Test Activity'',
      a_type = ''Run'',
      a_sport_type = ''running'',
      a_start_date_local = ''2024-01-01T06:00:00Z'',
      a_distance = Some (Finite 5000),
      a_total_elevation_gain = Some (Finite 100),
      a_description = Some (NotNull ''Test activity description''),
      a_private = Some False,
      a_commute = Some False\<rparr>"

definition resolving_with :: "StravaDetailedActivity \<Rightarrow> update_function" where
  "resolving_with a token ident params = Resolved a"


text \<open>The inputs of the tests: only a name, and only a null gear.\<close>

definition name_only_input :: UpdateActivityInput where
  "name_only_input =
     \<lparr>activityId = Finite 12345, name = Some ''Updated Name'', type = None, sportType = None,
      description = None, isPrivate = None, commute = None, gearId = None\<rparr>"




section \<open>Properties of the payload\<close>










lemma execute_without_token:
  assumes "env = None \<or> env = Some []"
  shows "execute rt env upd input =
           \<lparr>outcome = Inr (text_result ''Configuration error: Missing Strava access token.'' (Some True)),
            trace = [ConsoleError ''Missing STRAVA_ACCESS_TOKEN environment variable.'']\<rparr>"
  using assms by (auto simp: execute_def)





section \<open>Properties of the handler\<close>

text \<open>
  Claim C3. When the credential is missing or empty, the handler returns an error result
  whose text is the configuration error, and the client is not called.
\<close>

theorem missing_token_configuration_error:
  assumes "env = None \<or> env = Some []"
  shows "\<exists>r t. outcome (execute rt env upd input) = Inr r
           \<and> isError r = Some True
           \<and> content r = [\<lparr>block_type = ''text'', block_text = t\<rparr>]
           \<and> t = ''Configuration error: Missing Strava access token.''
           \<and> str_includes t ''Configuration error''
           \<and> update_calls (trace (execute rt env upd input)) = []"
  by (simp add: execute_without_token [OF assms] text_result_def)

theorem missing_token_configuration_error_witness:
  "\<exists>r t. outcome (execute exact_runtime None (resolving_with mockActivity) name_only_input) = Inr r
           \<and> isError r = Some True
           \<and> content r = [\<lparr>block_type = ''text'', block_text = t\<rparr>]
           \<and> t = ''Configuration error: Missing Strava access token.''
           \<and> str_includes t ''Configuration error''
           \<and> update_calls (trace (execute exact_runtime None (resolving_with mockActivity)
                 name_only_input)) = []"
  using missing_token_configuration_error [of None exact_runtime "resolving_with mockActivity"
      name_only_input]
  by simp




lemma execute_rejected:
  assumes "token \<noteq> []"
    and "upd token (activityId input) (build_updateParams input) = Rejected e"
    and "errorMessage_of e = Inr m"
  shows "outcome (execute rt (Some token) upd input) =
           Inr (text_result (glyph_cross @ '' '' @ userFriendlyMessage rt (activityId input) m) (Some True))"
  using assms by (simp add: execute_def Let_def)









lemma execute_resolved:
  assumes "token \<noteq> []"
    and "upd token (activityId input) (build_updateParams input) = Resolved a"
  shows "outcome (execute rt (Some token) upd input) =
           Inr (text_result (glyph_check @ '' Successfully updated activity ID ''
                  @ Number_toString rt (activityId input) @ ''.\<newline>\<newline>''
                  @ formatActivityDetails rt a) None)"
  using assms by (simp add: execute_def Let_def)

lemma execute_unstringifiable:
  assumes "token \<noteq> []"
    and "upd token (activityId input) (build_updateParams input) = Rejected (Unstringifiable t)"
  shows "outcome (execute rt (Some token) upd input) = Inl t"
  using assms by (simp add: execute_def Let_def)

lemma errorMessage_of_cases:
  obtains m where "errorMessage_of e = Inr m" | t where "e = Unstringifiable t"
  by (cases e) simp_all

text \<open>
  Claim C5 says that the result of a successful update carries the error flag, set to false.
  The result returned for the test's input has no \<^verbatim>\<open>isError\<close> key at all.
\<close>

theorem success_result_without_error_flag:
  "map_option isError (returned (execute exact_runtime (Some ''test-token'')
      (resolving_with mockActivity) name_only_input)) = Some None"
proof -
  have h1: "''test-token'' \<noteq> []" by simp
  have h2: "resolving_with mockActivity ''test-token'' (activityId name_only_input)
              (build_updateParams name_only_input) = Resolved mockActivity"
    by (simp add: resolving_with_def)
  show ?thesis
    unfolding returned_def
      execute_resolved [where upd = "resolving_with mockActivity" and token = "''test-token''"
        and input = name_only_input, OF h1 h2]
    by (simp add: text_result_def)
qed

text \<open>
  Claim C5, amended. Every result that the handler returns has exactly one text block. Its
  \<^verbatim>\<open>isError\<close> is true when the credential is missing and when the client rejects; when the
  client resolves, the key is absent and the text is the check mark,
  \<^verbatim>\<open>Successfully updated activity ID\<close>, the identifier, a full stop, an empty line and the
  formatted activity.
\<close>

theorem result_shape:
  assumes "outcome (execute rt env upd input) = Inr r"
  shows "\<exists>t. content r = [\<lparr>block_type = ''text'', block_text = t\<rparr>]
           \<and> (env = None \<or> env = Some [] \<longrightarrow> isError r = Some True)
           \<and> (\<forall>token e. env = Some token \<and> token \<noteq> []
                  \<and> upd token (activityId input) (build_updateParams input) = Rejected e
                \<longrightarrow> isError r = Some True)
           \<and> (\<forall>token a. env = Some token \<and> token \<noteq> []
                  \<and> upd token (activityId input) (build_updateParams input) = Resolved a
                \<longrightarrow> isError r = None
                    \<and> t = glyph_check @ '' Successfully updated activity ID ''
                          @ Number_toString rt (activityId input) @ ''.\<newline>\<newline>''
                          @ formatActivityDetails rt a)"
proof (cases "env = None \<or> env = Some []")
  case True
  from assms show ?thesis
    unfolding execute_without_token [OF True]
    using True by (auto simp: text_result_def)
next
  case False
  then obtain token where env: "env = Some token" and tok: "token \<noteq> []" by auto
  show ?thesis
  proof (cases "upd token (activityId input) (build_updateParams input)")
    case (Resolved a)
    from assms show ?thesis
      unfolding env execute_resolved [where upd = upd and token = token and input = input, OF tok Resolved]
      using tok Resolved by (auto simp: text_result_def)
  next
    case (Rejected e)
    show ?thesis
    proof (cases e rule: errorMessage_of_cases)
      case (1 m)
      from assms show ?thesis
        unfolding env execute_rejected [where upd = upd and token = token and input = input, OF tok Rejected 1]
        using tok Rejected by (auto simp: text_result_def)
    next
      case (2 t)
      from assms show ?thesis
        unfolding env
          execute_unstringifiable [where upd = upd and token = token and input = input,
            OF tok Rejected [unfolded 2]]
        by simp
    qed
  qed
qed

theorem result_shape_witness:
  "\<exists>r t. outcome (execute exact_runtime (Some ''test-token'') (resolving_with mockActivity)
             name_only_input) = Inr r
         \<and> content r = [\<lparr>block_type = ''text'', block_text = t\<rparr>]
         \<and> isError r = None
         \<and> t = glyph_check @ '' Successfully updated activity ID ''
                  @ Number_toString exact_runtime (activityId name_only_input) @ ''.\<newline>\<newline>''
                  @ formatActivityDetails exact_runtime mockActivity"
proof -
  let ?r = "text_result (glyph_check @ '' Successfully updated activity ID ''
                  @ Number_toString exact_runtime (activityId name_only_input) @ ''.\<newline>\<newline>''
                  @ formatActivityDetails exact_runtime mockActivity) None"
  have h1: "''test-token'' \<noteq> []" by simp
  have h2: "resolving_with mockActivity ''test-token'' (activityId name_only_input)
              (build_updateParams name_only_input) = Resolved mockActivity"
    by (simp add: resolving_with_def)
  have out: "outcome (execute exact_runtime (Some ''test-token'') (resolving_with mockActivity)
             name_only_input) = Inr ?r"
    by (rule execute_resolved [where upd = "resolving_with mockActivity", OF h1 h2])
  have pre: "Some ''test-token'' = Some ''test-token'' \<and> ''test-token'' \<noteq> []
      \<and> resolving_with mockActivity ''test-token'' (activityId name_only_input)
              (build_updateParams name_only_input) = Resolved mockActivity"
    using h1 h2 by (intro conjI refl)
  from result_shape [OF out] obtain t where
    c: "content ?r = [\<lparr>block_type = ''text'', block_text = t\<rparr>]"
    and s: "\<forall>token a. Some ''test-token'' = Some token \<and> token \<noteq> []
                  \<and> resolving_with mockActivity token (activityId name_only_input)
                        (build_updateParams name_only_input) = Resolved a
                \<longrightarrow> isError ?r = None
                    \<and> t = glyph_check @ '' Successfully updated activity ID ''
                          @ Number_toString exact_runtime (activityId name_only_input) @ ''.\<newline>\<newline>''
                          @ formatActivityDetails exact_runtime a"
    by (elim exE conjE) (rule that)
  from s [rule_format, OF pre] have
    "isError ?r = None \<and> t = glyph_check @ '' Successfully updated activity ID ''
                          @ Number_toString exact_runtime (activityId name_only_input) @ ''.\<newline>\<newline>''
                          @ formatActivityDetails exact_runtime mockActivity" .
  with out c show ?thesis by (intro exI conjI) (erule conjunct1 conjunct2 | assumption)+
qed




section \<open>Properties of the formatter\<close>




lemma digits_nonempty: "digits n \<noteq> []"
  by (subst digits.simps) simp







lemma truthy_number_iff: "truthy_number d \<longleftrightarrow> \<not> (d = Finite 0 \<or> d = NaN)"
  by (cases d) simp_all



lemma distance_line:
  "(if a_distance a \<noteq> None
    then ''   - Distance: ''
           @ (case a_distance a of
                Some d \<Rightarrow> if truthy_number d
                          then Number_toFixed rt (Number_divide rt d (Finite 1000)) 2 @ '' km''
                          else ''N/A''
              | None \<Rightarrow> ''N/A'') @ ''\<newline>''
    else [])
   = (case a_distance a of
        None \<Rightarrow> []
      | Some d \<Rightarrow> ''   - Distance: ''
          @ (if d = Finite 0 \<or> d = NaN then ''N/A''
             else Number_toFixed rt (Number_divide rt d (Finite 1000)) 2 @ '' km'') @ ''\<newline>'')"
  by (cases "a_distance a") (simp_all add: truthy_number_iff)

lemma elevation_line:
  "(if a_total_elevation_gain a \<noteq> None
    then ''   - Elevation Gain: ''
           @ (case a_total_elevation_gain a of
                Some e \<Rightarrow> if truthy_number e
                          then Number_toString rt (Math_round e) @ '' m''
                          else ''N/A''
              | None \<Rightarrow> ''N/A'') @ ''\<newline>''
    else [])
   = (case a_total_elevation_gain a of
        None \<Rightarrow> []
      | Some e \<Rightarrow> ''   - Elevation Gain: ''
          @ (if e = Finite 0 \<or> e = NaN then ''N/A''
             else Number_toString rt (Math_round e) @ '' m'') @ ''\<newline>'')"
  by (cases "a_total_elevation_gain a") (simp_all add: truthy_number_iff)

lemma description_line:
  "(if truthy_description (a_description a)
    then ''   - Description: '' @ description_text (a_description a) @ ''\<newline>''
    else [])
   = (case a_description a of
        Some (NotNull s) \<Rightarrow> if s = [] then [] else ''   - Description: '' @ s @ ''\<newline>''
      | _ \<Rightarrow> [])"
  by (simp add: truthy_description_def description_text_def split: option.split nullable.split)

lemma append_if: "(if c then xs @ ys else xs) = xs @ (if c then ys else [])"
  by simp

lemma formatActivityDetails_lines:
  "formatActivityDetails rt a =
     (glyph_runner @ '' **'' @ a_name a @ ''** (ID: '' @ Number_toString rt (a_id a) @ '')\<newline>''
        @ ''   - Type: '' @ a_type a @ '' ('' @ a_sport_type a @ '')\<newline>''
        @ ''   - Date: '' @ Date_toLocaleString rt (a_start_date_local a) @ ''\<newline>'')
     @ (case a_distance a of
          None \<Rightarrow> []
        | Some d \<Rightarrow> ''   - Distance: ''
            @ (if d = Finite 0 \<or> d = NaN then ''N/A''
               else Number_toFixed rt (Number_divide rt d (Finite 1000)) 2 @ '' km'') @ ''\<newline>'')
     @ (case a_total_elevation_gain a of
          None \<Rightarrow> []
        | Some e \<Rightarrow> ''   - Elevation Gain: ''
            @ (if e = Finite 0 \<or> e = NaN then ''N/A''
               else Number_toString rt (Math_round e) @ '' m'') @ ''\<newline>'')
     @ (case a_description a of
          Some (NotNull s) \<Rightarrow> if s = [] then [] else ''   - Description: '' @ s @ ''\<newline>''
        | _ \<Rightarrow> [])
     @ (''   - Private: '' @ (if a_private a = Some True then ''Yes'' else ''No'') @ ''\<newline>''
        @ ''   - Commute: '' @ (if a_commute a = Some True then ''Yes'' else ''No'') @ ''\<newline>'')"
  unfolding distance_line [symmetric] elevation_line [symmetric] description_line [symmetric]
  unfolding formatActivityDetails_def Let_def append_if truthy_flag_def
  by (simp only: append_assoc)







text \<open>
  Claim C10. Whatever the activity, the text starts with the name and identifier line, the
  type line and the date line, and ends with the Private line and the Commute line; a flag
  that is absent or false is shown as \<^verbatim>\<open>No\<close>.
\<close>

theorem unconditional_lines:
  "\<exists>middle. formatActivityDetails rt a =
     glyph_runner @ '' **'' @ a_name a @ ''** (ID: '' @ Number_toString rt (a_id a) @ '')\<newline>''
       @ ''   - Type: '' @ a_type a @ '' ('' @ a_sport_type a @ '')\<newline>''
       @ ''   - Date: '' @ Date_toLocaleString rt (a_start_date_local a) @ ''\<newline>''
       @ middle
       @ ''   - Private: ''
       @ (case a_private a of None \<Rightarrow> ''No'' | Some b \<Rightarrow> if b then ''Yes'' else ''No'') @ ''\<newline>''
       @ ''   - Commute: ''
       @ (case a_commute a of None \<Rightarrow> ''No'' | Some b \<Rightarrow> if b then ''Yes'' else ''No'') @ ''\<newline>''"
proof -
  have p: "(if a_private a = Some True then ''Yes'' else ''No'')
             = (case a_private a of None \<Rightarrow> ''No'' | Some b \<Rightarrow> if b then ''Yes'' else ''No'')"
    by (simp split: option.split)
  have c: "(if a_commute a = Some True then ''Yes'' else ''No'')
             = (case a_commute a of None \<Rightarrow> ''No'' | Some b \<Rightarrow> if b then ''Yes'' else ''No'')"
    by (simp split: option.split)
  show ?thesis
    unfolding formatActivityDetails_lines p c
    by (rule exI [of _ "_ @ _ @ _"]) (simp only: append_assoc)
qed

section \<open>Properties of the schema\<close>











end
